theory Spec2Isabelle
  imports Complex_Main "HOL-Library.AList"
begin

section \<open>Benchmark report pipeline of scripts/parse\_bench.py\<close>

text \<open>
  The development embeds the two parsers, the per-group table generator, the section
  generator and the command-line entry point of \<^verbatim>\<open>scripts/parse_bench.py\<close>, and the
  vs-fastest column of the older \<^verbatim>\<open>scripts/parse-bench.py\<close>.

  Conventions of the embedding:
  \<^item> a Python \<^verbatim>\<open>str\<close> is a list of Unicode code points (\<open>nat list\<close>); ASCII literals are
    written \<open>u ''...''\<close>;
  \<^item> the classes \<^verbatim>\<open>\w\<close>, \<^verbatim>\<open>\d\<close>, \<^verbatim>\<open>\s\<close> are Python's on the ASCII range and on the five
    non-ASCII glyphs that occur in the patterns (the box-drawing characters and the micro
    sign); other code points beyond ASCII belong to none of the classes here;
  \<^item> a Python \<^verbatim>\<open>float\<close> is an exact rational: decimal literals and the products and
    quotients formed from them carry no rounding;
  \<^item> a \<^verbatim>\<open>dict\<close> is an association list in insertion order: assigning to a present key
    keeps its position, assigning to a new key appends (\<open>AList.update\<close>);
  \<^item> an exception is the left summand of a result.
\<close>

subsection \<open>Strings and character classes\<close>

type_synonym uchar = nat
type_synonym ustring = "nat list"

definition u :: "string \<Rightarrow> ustring" where
  "u s = map of_char s"

datatype py_error = ValueError | KeyError | ZeroDivisionError | OSError ustring

text \<open>The glyphs of the patterns, by code point.\<close>

definition box_vr :: uchar where "box_vr = 9500"    \<comment> \<open>U+251C, vertical and right\<close>
definition box_arc :: uchar where "box_arc = 9584"  \<comment> \<open>U+2570, arc up and right\<close>
definition box_h :: uchar where "box_h = 9472"      \<comment> \<open>U+2500, horizontal\<close>
definition box_v :: uchar where "box_v = 9474"      \<comment> \<open>U+2502, vertical\<close>
definition micro :: uchar where "micro = 181"       \<comment> \<open>U+00B5, micro sign\<close>

definition is_digit :: "uchar \<Rightarrow> bool" where
  "is_digit c \<longleftrightarrow> 48 \<le> c \<and> c \<le> 57"

definition is_word :: "uchar \<Rightarrow> bool" where
  "is_word c \<longleftrightarrow> is_digit c \<or> (65 \<le> c \<and> c \<le> 90) \<or> (97 \<le> c \<and> c \<le> 122) \<or> c = 95 \<or> c = micro"

definition is_space :: "uchar \<Rightarrow> bool" where
  "is_space c \<longleftrightarrow> (9 \<le> c \<and> c \<le> 13) \<or> (28 \<le> c \<and> c \<le> 32)"

text \<open>The class \<^verbatim>\<open>[\d.]\<close>, the class \<^verbatim>\<open>[\d,]\<close> and the class \<^verbatim>\<open>[\w\s]\<close>.\<close>

definition is_numch :: "uchar \<Rightarrow> bool" where
  "is_numch c \<longleftrightarrow> is_digit c \<or> c = 46"

definition is_countch :: "uchar \<Rightarrow> bool" where
  "is_countch c \<longleftrightarrow> is_digit c \<or> c = 44"

definition is_labelch :: "uchar \<Rightarrow> bool" where
  "is_labelch c \<longleftrightarrow> is_word c \<or> is_space c"

fun startswith :: "'a list \<Rightarrow> 'a list \<Rightarrow> bool" where
  "startswith [] s = True"
| "startswith (p # ps) [] = False"
| "startswith (p # ps) (c # cs) = (p = c \<and> startswith ps cs)"

text \<open>\<^verbatim>\<open>pat in s\<close>.\<close>

fun contains :: "'a list \<Rightarrow> 'a list \<Rightarrow> bool" where
  "contains pat [] = (pat = [])"
| "contains pat (c # cs) = (startswith pat (c # cs) \<or> contains pat cs)"

text \<open>
  \<^verbatim>\<open>s.replace(pat, '')\<close>: the occurrences of \<open>pat\<close> are removed in one pass from the
  left, without overlap; the counter is the number of characters of the current
  occurrence still to drop. An empty \<open>pat\<close> removes nothing.
\<close>

fun remove_from :: "'a list \<Rightarrow> nat \<Rightarrow> 'a list \<Rightarrow> 'a list" where
  "remove_from pat n [] = []"
| "remove_from pat (Suc n) (c # cs) = remove_from pat n cs"
| "remove_from pat 0 (c # cs) =
     (if pat \<noteq> [] \<and> startswith pat (c # cs) then remove_from pat (length pat - 1) cs
      else c # remove_from pat 0 cs)"

definition replace_empty :: "'a list \<Rightarrow> 'a list \<Rightarrow> 'a list" where
  "replace_empty pat s = remove_from pat 0 s"

text \<open>\<^verbatim>\<open>s.split(sep)\<close> for a one-character separator.\<close>

fun split_on :: "'a \<Rightarrow> 'a list \<Rightarrow> 'a list list" where
  "split_on sep [] = [[]]"
| "split_on sep (c # cs) =
     (if c = sep then [] # split_on sep cs
      else (case split_on sep cs of [] \<Rightarrow> [[c]] | l # ls \<Rightarrow> (c # l) # ls))"

definition strip :: "ustring \<Rightarrow> ustring" where
  "strip s = rev (dropWhile is_space (rev (dropWhile is_space s)))"

subsection \<open>Numeric literals\<close>

definition digits_val :: "ustring \<Rightarrow> nat" where
  "digits_val s = foldl (\<lambda>n c. 10 * n + (c - 48)) 0 s"

text \<open>
  \<^verbatim>\<open>float(s)\<close> on the strings the class \<^verbatim>\<open>[\d.]+\<close> lets through: digits with at most one
  point and at least one digit; anything else raises \<^verbatim>\<open>ValueError\<close>.
\<close>

definition py_float :: "ustring \<Rightarrow> py_error + rat" where
  "py_float s =
     (let ip = takeWhile is_digit s; r = dropWhile is_digit s in
      case r of
        [] \<Rightarrow> if ip = [] then Inl ValueError else Inr (of_nat (digits_val ip))
      | c # fp \<Rightarrow>
          if c = 46 \<and> list_all is_digit fp \<and> (ip \<noteq> [] \<or> fp \<noteq> [])
          then Inr (of_nat (digits_val ip) + of_nat (digits_val fp) / 10 ^ length fp)
          else Inl ValueError)"

text \<open>
  \<^verbatim>\<open>int(s)\<close> on the strings that reach it, which hold digits only: the empty string raises
  \<^verbatim>\<open>ValueError\<close>. The interpreter's bound on the number of digits of a literal is not
  part of the model, and neither is the overflow of a \<^verbatim>\<open>float\<close> to infinity.
\<close>

definition py_int :: "ustring \<Rightarrow> py_error + int" where
  "py_int s = (if s \<noteq> [] \<and> list_all is_digit s then Inr (int (digits_val s)) else Inl ValueError)"

subsection \<open>The line patterns\<close>

text \<open>
  Each pattern is matched at the start of the line, as \<^verbatim>\<open>re.match\<close> does. In every
  pattern but the metric one, a greedy repetition is followed by a class disjoint from
  it, so the repetition takes the whole run and backtracking finds nothing more.

  The section pattern is \<^verbatim>\<open>[VR ARC]H (\w+)\s\<close>, where \<open>VR\<close>, \<open>ARC\<close>, \<open>H\<close> and \<open>V\<close> stand for
  the box-drawing glyphs defined above and \<open>MICRO\<close> for the micro sign.
\<close>

definition module_match :: "ustring \<Rightarrow> ustring option" where
  "module_match line =
     (case line of
        c1 # c2 # c3 # rest \<Rightarrow>
          if (c1 = box_vr \<or> c1 = box_arc) \<and> c2 = box_h \<and> c3 = 32 then
            (case dropWhile is_word rest of
               [] \<Rightarrow> None
             | a # _ \<Rightarrow> if takeWhile is_word rest \<noteq> [] \<and> is_space a
                        then Some (takeWhile is_word rest) else None)
          else None
      | _ \<Rightarrow> None)"

text \<open>The measurement pattern is \<^verbatim>\<open>V?\s*[VR ARC]H\s+([\w_]+)\s+([\d.]+)\s+(ns|MICROs|ms)\<close>.\<close>

definition unit_match :: "ustring \<Rightarrow> ustring option" where
  "unit_match s =
     (if startswith (u ''ns'') s then Some (u ''ns'')
      else if startswith [micro, 115] s then Some [micro, 115]
      else if startswith (u ''ms'') s then Some (u ''ms'')
      else None)"

definition result_match :: "ustring \<Rightarrow> (ustring \<times> ustring \<times> ustring) option" where
  "result_match line =
     (let s0 = (case line of [] \<Rightarrow> line | c # r \<Rightarrow> if c = box_v then r else line) in
      case dropWhile is_space s0 of
        c1 # c2 # s2 \<Rightarrow>
          if (c1 = box_vr \<or> c1 = box_arc) \<and> c2 = box_h then
            (let s3 = dropWhile is_space s2;
                 name = takeWhile is_word s3; s4 = dropWhile is_word s3;
                 s5 = dropWhile is_space s4;
                 num = takeWhile is_numch s5; s6 = dropWhile is_numch s5;
                 s7 = dropWhile is_space s6 in
             if takeWhile is_space s2 \<noteq> [] \<and> name \<noteq> [] \<and> takeWhile is_space s4 \<noteq> []
                \<and> num \<noteq> [] \<and> takeWhile is_space s6 \<noteq> []
             then (case unit_match s7 of None \<Rightarrow> None | Some un \<Rightarrow> Some (name, num, un))
             else None)
          else None
      | _ \<Rightarrow> None)"

subsection \<open>The statistical parser\<close>

record op_maps =
  deserialize :: "(ustring \<times> rat) list"
  serialize :: "(ustring \<times> rat) list"

type_synonym divan_results = "(ustring \<times> op_maps) list"

text \<open>The conversion of the three unit tokens to nanoseconds.\<close>

definition to_ns :: "ustring \<Rightarrow> rat \<Rightarrow> rat" where
  "to_ns unit v =
     (if unit = [micro, 115] then v * 1000
      else if unit = u ''ms'' then v * 1000000
      else v)"

definition operation_of :: "ustring \<Rightarrow> ustring" where
  "operation_of target_full =
     (if contains (u ''deserialize'') target_full then u ''deserialize'' else u ''serialize'')"

definition target_base_of :: "ustring \<Rightarrow> ustring" where
  "target_base_of target_full =
     replace_empty (u ''_serialize'') (replace_empty (u ''_deserialize'') target_full)"

text \<open>
  \<^verbatim>\<open>results[current_benchmark][operation][target_base] = value\<close>; a benchmark that is
  not a key raises \<^verbatim>\<open>KeyError\<close>.
\<close>

definition store_result ::
  "divan_results \<Rightarrow> ustring \<Rightarrow> ustring \<Rightarrow> ustring \<Rightarrow> rat \<Rightarrow> py_error + divan_results" where
  "store_result results bench operation target v =
     (case map_of results bench of
        None \<Rightarrow> Inl KeyError
      | Some e \<Rightarrow>
          if operation = u ''deserialize''
          then Inr (AList.update bench (e\<lparr>deserialize := AList.update target v (deserialize e)\<rparr>) results)
          else Inr (AList.update bench (e\<lparr>serialize := AList.update target v (serialize e)\<rparr>) results))"

text \<open>One iteration of the loop of \<^verbatim>\<open>parse_divan_output\<close>, on the pair of its two variables.\<close>

definition divan_line ::
  "divan_results \<times> ustring option \<Rightarrow> ustring \<Rightarrow> py_error + (divan_results \<times> ustring option)" where
  "divan_line st line =
     (case module_match line of
        Some name \<Rightarrow>
          Inr (AList.update name \<lparr>deserialize = [], serialize = []\<rparr> (fst st), Some name)
      | None \<Rightarrow>
          (case snd st of
             None \<Rightarrow> Inr st
           | Some bench \<Rightarrow>
               if bench = [] then Inr st
               else (case result_match line of
                       None \<Rightarrow> Inr st
                     | Some (target_full, num, unit) \<Rightarrow>
                         (case py_float num of
                            Inl e \<Rightarrow> Inl e
                          | Inr v \<Rightarrow>
                              (case store_result (fst st) bench (operation_of target_full)
                                      (target_base_of target_full) (to_ns unit v) of
                                 Inl e \<Rightarrow> Inl e
                               | Inr results \<Rightarrow> Inr (results, Some bench))))))"

fun divan_lines ::
  "divan_results \<times> ustring option \<Rightarrow> ustring list \<Rightarrow> py_error + (divan_results \<times> ustring option)" where
  "divan_lines st [] = Inr st"
| "divan_lines st (l # ls) =
     (case divan_line st l of Inl e \<Rightarrow> Inl e | Inr st' \<Rightarrow> divan_lines st' ls)"

definition parse_divan_output :: "ustring \<Rightarrow> py_error + divan_results" where
  "parse_divan_output text =
     (case divan_lines ([], None) (split_on 10 text) of
        Inl e \<Rightarrow> Inl e
      | Inr st \<Rightarrow> Inr (fst st))"

subsection \<open>The instruction-count parser\<close>

type_synonym gungraun_results = "(ustring \<times> (ustring \<times> int) list) list"

text \<open>The section pattern is \<^verbatim>\<open>gungraun_jit::[\w_]+::([\w_]+)\<close>.\<close>

definition name_match :: "ustring \<Rightarrow> ustring option" where
  "name_match line =
     (if startswith (u ''gungraun_jit::'') line then
        (let s1 = drop 14 line; s2 = dropWhile is_word s1 in
         if takeWhile is_word s1 \<noteq> [] \<and> startswith (u ''::'') s2 \<and> takeWhile is_word (drop 2 s2) \<noteq> []
         then Some (takeWhile is_word (drop 2 s2)) else None)
      else None)"

text \<open>
  The metric pattern is \<^verbatim>\<open>\s+([\w\s]+):\s+([\d,]+)\<close>. The label class contains the
  white space, so the leading \<^verbatim>\<open>\s+\<close> may have to give one character back: the run of
  label characters before the colon starts with white space and has at least two
  characters; the first group is what follows the leading white space, or the last white
  space character when the run is white space only.
\<close>

definition metric_match :: "ustring \<Rightarrow> (ustring \<times> ustring) option" where
  "metric_match line =
     (let run = takeWhile is_labelch line; lead = takeWhile is_space run in
      if lead = [] \<or> length run < 2 then None
      else (case dropWhile is_labelch line of
              [] \<Rightarrow> None
            | c # s1 \<Rightarrow>
                if c = 58 \<and> takeWhile is_space s1 \<noteq> [] \<and> takeWhile is_countch (dropWhile is_space s1) \<noteq> []
                then Some (if length lead < length run then drop (length lead) run else [last run],
                           takeWhile is_countch (dropWhile is_space s1))
                else None))"

definition store_metric ::
  "gungraun_results \<Rightarrow> ustring \<Rightarrow> ustring \<Rightarrow> int \<Rightarrow> py_error + gungraun_results" where
  "store_metric results bench metric v =
     (case map_of results bench of
        None \<Rightarrow> Inl KeyError
      | Some m \<Rightarrow> Inr (AList.update bench (AList.update metric v m) results))"

text \<open>The text left of the first \<^verbatim>\<open>|\<close>, when there is one.\<close>

definition current_part :: "ustring \<Rightarrow> ustring" where
  "current_part value_str =
     (if 124 \<in> set value_str
      then (case split_on 124 value_str of [] \<Rightarrow> [] | p # _ \<Rightarrow> p)
      else value_str)"

definition gungraun_line ::
  "gungraun_results \<times> ustring option \<Rightarrow> ustring \<Rightarrow> py_error + (gungraun_results \<times> ustring option)" where
  "gungraun_line st line =
     (case name_match line of
        Some nm \<Rightarrow> Inr (AList.update nm [] (fst st), Some nm)
      | None \<Rightarrow>
          (case snd st of
             None \<Rightarrow> Inr st
           | Some bench \<Rightarrow>
               if bench = [] then Inr st
               else (case metric_match line of
                       None \<Rightarrow> Inr st
                     | Some (g1, g2) \<Rightarrow>
                         (case py_int (current_part (filter (\<lambda>c. c \<noteq> 44) g2)) of
                            Inl e \<Rightarrow> if e = ValueError then Inr st else Inl e
                          | Inr v \<Rightarrow>
                              (case store_metric (fst st) bench (strip g1) v of
                                 Inl e \<Rightarrow> Inl e
                               | Inr results \<Rightarrow> Inr (results, Some bench))))))"

fun gungraun_lines ::
  "gungraun_results \<times> ustring option \<Rightarrow> ustring list \<Rightarrow> py_error + (gungraun_results \<times> ustring option)" where
  "gungraun_lines st [] = Inr st"
| "gungraun_lines st (l # ls) =
     (case gungraun_line st l of Inl e \<Rightarrow> Inl e | Inr st' \<Rightarrow> gungraun_lines st' ls)"

definition parse_gungraun_output :: "ustring \<Rightarrow> py_error + gungraun_results" where
  "parse_gungraun_output text =
     (case gungraun_lines ([], None) (split_on 10 text) of
        Inl e \<Rightarrow> Inl e
      | Inr st \<Rightarrow> Inr (fst st))"

subsection \<open>Formatting\<close>

text \<open>
  A number printed at a fixed precision is kept as the triple of the number of decimals,
  the value and the suffix; the digits are not expanded. Every other text is literal.
\<close>

datatype cell = Fixed nat rat ustring | Lit ustring

definition format_time :: "rat \<Rightarrow> cell" where
  "format_time ns =
     (if ns < 1000 then Fixed 1 ns (u '' ns'')
      else if ns < 1000000 then Fixed 2 (ns / 1000) [32, micro, 115]
      else Fixed 2 (ns / 1000000) (u '' ms''))"

fun digits_of :: "nat \<Rightarrow> ustring" where
  "digits_of n = (if n < 10 then [48 + n] else digits_of (n div 10) @ [48 + n mod 10])"

declare digits_of.simps [simp del]

fun group3 :: "ustring \<Rightarrow> ustring" where
  "group3 (a # b # c # d # rest) = a # b # c # 44 # group3 (d # rest)"
| "group3 ds = ds"

text \<open>The format \<^verbatim>\<open>{n:,}\<close> of an integer.\<close>

definition format_commas :: "int \<Rightarrow> ustring" where
  "format_commas n =
     (if n < 0 then 45 # rev (group3 (rev (digits_of (nat (- n)))))
      else rev (group3 (rev (digits_of (nat n)))))"

definition py_div :: "rat \<Rightarrow> rat \<Rightarrow> py_error + rat" where
  "py_div a b = (if b = 0 then Inl ZeroDivisionError else Inr (a / b))"

subsection \<open>The table and chart of one group\<close>

record target_config =
  cfg_emoji :: ustring
  cfg_name :: ustring
  cfg_label :: ustring
  cfg_color :: ustring

definition TARGETS :: "(ustring \<times> target_config) list" where
  "TARGETS =
     [(u ''facet_format_jit'',
         \<lparr>cfg_emoji = [9889], cfg_name = u ''facet_format_jit'',
          cfg_label = u ''Format JIT'', cfg_color = u ''#FFD700''\<rparr>),
      (u ''facet_format_json'',
         \<lparr>cfg_emoji = [128230], cfg_name = u ''facet_format_json'',
          cfg_label = u ''Format Interp'', cfg_color = u ''#FF6B6B''\<rparr>),
      (u ''facet_json'',
         \<lparr>cfg_emoji = [128295], cfg_name = u ''facet_json'',
          cfg_label = u ''JSON Interp'', cfg_color = u ''#4ECDC4''\<rparr>),
      (u ''facet_json_cranelift'',
         \<lparr>cfg_emoji = [128640], cfg_name = u ''facet_json_cranelift'',
          cfg_label = u ''JSON JIT'', cfg_color = u ''#95E1D3''\<rparr>),
      (u ''serde_json'',
         \<lparr>cfg_emoji = [127919], cfg_name = u ''serde_json'',
          cfg_label = u ''serde_json'', cfg_color = u ''#9B59B6''\<rparr>)]"

record table_row =
  row_class :: ustring
  data_target :: ustring
  target_cell :: ustring
  time_cell :: cell
  instructions_str :: ustring
  vs_serde_class :: ustring
  vs_serde_str :: cell

text \<open>
  \<^verbatim>\<open>gungraun_data.get(gungraun_key, {}).get('Instructions')\<close> and the text made of it: a
  count that is absent or falsy is shown as a dash.
\<close>

definition lookup_instructions :: "gungraun_results \<Rightarrow> ustring \<Rightarrow> ustring \<Rightarrow> int option" where
  "lookup_instructions gungraun_data bench_name target =
     (case map_of gungraun_data (bench_name @ u ''_'' @ target) of
        None \<Rightarrow> None
      | Some m \<Rightarrow> map_of m (u ''Instructions''))"

definition instructions_text :: "int option \<Rightarrow> ustring" where
  "instructions_text instructions =
     (case instructions of
        None \<Rightarrow> u ''-''
      | Some n \<Rightarrow> if n \<noteq> 0 then format_commas n else u ''-'')"

text \<open>\<^verbatim>\<open>time_ns / serde_time if serde_time and serde_time > 0 else 0\<close>\<close>

definition vs_serde_of :: "rat \<Rightarrow> rat option \<Rightarrow> py_error + rat" where
  "vs_serde_of time_ns serde_time =
     (case serde_time of
        None \<Rightarrow> Inr 0
      | Some s \<Rightarrow> if s \<noteq> 0 \<and> s > 0 then py_div time_ns s else Inr 0)"

definition row_class_of :: "ustring \<Rightarrow> rat \<Rightarrow> rat \<Rightarrow> ustring" where
  "row_class_of target time_ns fastest_time =
     (if time_ns = fastest_time then u ''fastest''
      else if target = u ''serde_json'' then u ''baseline''
      else if target = u ''facet_format_jit'' then u ''jit-highlight''
      else [])"

text \<open>The body of the row loop for one target; a target outside the registry gives no row.\<close>

definition table_row_of ::
  "ustring \<Rightarrow> gungraun_results \<Rightarrow> rat option \<Rightarrow> rat \<Rightarrow> ustring \<times> rat \<Rightarrow> py_error + table_row option" where
  "table_row_of bench_name gungraun_data serde_time fastest_time tt =
     (case map_of TARGETS (fst tt) of
        None \<Rightarrow> Inr None
      | Some config \<Rightarrow>
          (case vs_serde_of (snd tt) serde_time of
             Inl e \<Rightarrow> Inl e
           | Inr vs_serde \<Rightarrow>
               Inr (Some
                 \<lparr>row_class = row_class_of (fst tt) (snd tt) fastest_time,
                  data_target = fst tt,
                  target_cell = cfg_emoji config @ [32] @ cfg_label config,
                  time_cell = format_time (snd tt),
                  instructions_str = instructions_text (lookup_instructions gungraun_data bench_name (fst tt)),
                  vs_serde_class =
                    (if vs_serde \<le> 1 then u ''speedup''
                     else if vs_serde \<le> 2 then u ''neutral'' else u ''slowdown''),
                  vs_serde_str = (if vs_serde > 0 then Fixed 2 vs_serde (u ''x'') else Lit (u ''-''))\<rparr>)))"

fun table_rows ::
  "ustring \<Rightarrow> gungraun_results \<Rightarrow> rat option \<Rightarrow> rat \<Rightarrow> (ustring \<times> rat) list \<Rightarrow> py_error + table_row list" where
  "table_rows bench_name gungraun_data serde_time fastest_time [] = Inr []"
| "table_rows bench_name gungraun_data serde_time fastest_time (tt # tts) =
     (case table_row_of bench_name gungraun_data serde_time fastest_time tt of
        Inl e \<Rightarrow> Inl e
      | Inr r \<Rightarrow>
          (case table_rows bench_name gungraun_data serde_time fastest_time tts of
             Inl e \<Rightarrow> Inl e
           | Inr rs \<Rightarrow> Inr (case r of None \<Rightarrow> rs | Some row \<Rightarrow> row # rs)))"

record bench_section =
  sec_id :: ustring
  sec_bench :: ustring
  sec_operation :: ustring
  sec_rows :: "table_row list"
  chart_labels :: "ustring list"
  chart_data :: "cell list"
  chart_background :: "ustring list"
  chart_border :: "ustring list"

datatype html_block =
  ReportHead ustring ustring
| SectionHeader ustring
| BenchmarkItem bench_section
| InteractiveJs
| Footer

text \<open>The registered targets of a sorted group, with their configuration, as the four chart loops visit them.\<close>

definition charted :: "(ustring \<times> rat) list \<Rightarrow> (target_config \<times> rat) list" where
  "charted sorted_targets =
     concat (map (\<lambda>tt. case map_of TARGETS (fst tt) of None \<Rightarrow> [] | Some config \<Rightarrow> [(config, snd tt)])
                 sorted_targets)"

definition generate_benchmark_section ::
  "ustring \<Rightarrow> ustring \<Rightarrow> (ustring \<times> rat) list \<Rightarrow> gungraun_results \<Rightarrow> ustring \<Rightarrow> py_error + html_block list" where
  "generate_benchmark_section bench_name operation divan_data gungraun_data bench_id =
     (if divan_data = [] then Inr []
      else
        (let serde_time = map_of divan_data (u ''serde_json'');
             fastest_time = (if map snd divan_data \<noteq> [] then Min (set (map snd divan_data)) else 0);
             sorted_targets = sort_key snd divan_data in
         case table_rows bench_name gungraun_data serde_time fastest_time sorted_targets of
           Inl e \<Rightarrow> Inl e
         | Inr rows \<Rightarrow>
             Inr [BenchmarkItem
               \<lparr>sec_id = bench_id, sec_bench = bench_name, sec_operation = operation,
                sec_rows = rows,
                chart_labels = map (\<lambda>ct. cfg_emoji (fst ct) @ [32] @ cfg_label (fst ct)) (charted sorted_targets),
                chart_data = map (\<lambda>ct. Fixed 3 (snd ct / 1000) []) (charted sorted_targets),
                chart_background = map (\<lambda>ct. cfg_color (fst ct) @ u ''CC'') (charted sorted_targets),
                chart_border = map (\<lambda>ct. cfg_color (fst ct)) (charted sorted_targets)\<rparr>]))"

subsection \<open>The sections of the report\<close>

definition micro_names :: "ustring list" where
  "micro_names = [u ''simple_struct'', u ''single_nested_struct'', u ''simple_with_options'', u ''nested_struct'']"

definition realistic_names :: "ustring list" where
  "realistic_names = [u ''twitter'', u ''canada'', u ''hashmaps'', u ''nested_structs'']"

definition array_names :: "ustring list" where
  "array_names = [u ''floats'', u ''integers'', u ''booleans'', u ''short_strings'', u ''long_strings'', u ''escaped_strings'']"

definition micro_benches :: "divan_results \<Rightarrow> ustring list" where
  "micro_benches divan_data = filter (\<lambda>b. b \<in> set micro_names) (map fst divan_data)"

definition realistic_benches :: "divan_results \<Rightarrow> ustring list" where
  "realistic_benches divan_data = filter (\<lambda>b. b \<in> set realistic_names) (map fst divan_data)"

definition array_benches :: "divan_results \<Rightarrow> ustring list" where
  "array_benches divan_data = filter (\<lambda>b. b \<in> set array_names) (map fst divan_data)"

definition other_benches :: "divan_results \<Rightarrow> ustring list" where
  "other_benches divan_data =
     filter (\<lambda>b. b \<notin> set (micro_benches divan_data @ realistic_benches divan_data @ array_benches divan_data))
            (map fst divan_data)"

text \<open>The body of the benchmark loop: the deserialize section, then the serialize section, each only for a non-empty map.\<close>

definition bench_blocks :: "divan_results \<Rightarrow> gungraun_results \<Rightarrow> ustring \<Rightarrow> py_error + html_block list" where
  "bench_blocks divan_data gungraun_data bench_name =
     (case map_of divan_data bench_name of
        None \<Rightarrow> Inl KeyError
      | Some bench_data \<Rightarrow>
          (case (if deserialize bench_data \<noteq> []
                 then generate_benchmark_section bench_name (u ''deserialize'') (deserialize bench_data)
                        gungraun_data (bench_name @ u ''_deser'')
                 else Inr []) of
             Inl e \<Rightarrow> Inl e
           | Inr de \<Rightarrow>
               (case (if serialize bench_data \<noteq> []
                      then generate_benchmark_section bench_name (u ''serialize'') (serialize bench_data)
                             gungraun_data (bench_name @ u ''_ser'')
                      else Inr []) of
                  Inl e \<Rightarrow> Inl e
                | Inr se \<Rightarrow> Inr (de @ se))))"

fun benchmarks_blocks :: "divan_results \<Rightarrow> gungraun_results \<Rightarrow> ustring list \<Rightarrow> py_error + html_block list" where
  "benchmarks_blocks divan_data gungraun_data [] = Inr []"
| "benchmarks_blocks divan_data gungraun_data (bench_name # rest) =
     (case bench_blocks divan_data gungraun_data bench_name of
        Inl e \<Rightarrow> Inl e
      | Inr bl \<Rightarrow>
          (case benchmarks_blocks divan_data gungraun_data rest of
             Inl e \<Rightarrow> Inl e
           | Inr bls \<Rightarrow> Inr (bl @ bls)))"

fun categories_blocks ::
  "divan_results \<Rightarrow> gungraun_results \<Rightarrow> (ustring \<times> ustring list) list \<Rightarrow> py_error + html_block list" where
  "categories_blocks divan_data gungraun_data [] = Inr []"
| "categories_blocks divan_data gungraun_data (cb # rest) =
     (if snd cb = [] then categories_blocks divan_data gungraun_data rest
      else (case benchmarks_blocks divan_data gungraun_data (snd cb) of
              Inl e \<Rightarrow> Inl e
            | Inr bl \<Rightarrow>
                (case categories_blocks divan_data gungraun_data rest of
                   Inl e \<Rightarrow> Inl e
                 | Inr bls \<Rightarrow> Inr (SectionHeader (fst cb) # bl @ bls))))"

definition generate_sections_html :: "divan_results \<Rightarrow> gungraun_results \<Rightarrow> py_error + html_block list" where
  "generate_sections_html divan_data gungraun_data =
     categories_blocks divan_data gungraun_data
       [([128300] @ u '' Micro Benchmarks (JIT Testing)'', micro_benches divan_data),
        ([127757] @ u '' Realistic Benchmarks (Real-World Data)'', realistic_benches divan_data),
        ([128202] @ u '' Array Benchmarks (Vec&lt;T&gt;)'', array_benches divan_data),
        ([128230] @ u '' Other Benchmarks'', other_benches divan_data)]"

subsection \<open>The entry point\<close>

text \<open>
  The file system maps a path to nothing when \<^verbatim>\<open>exists()\<close> is false, to its text, or to
  \<open>Unreadable\<close> when the path exists and \<^verbatim>\<open>read_text()\<close> raises. The result of the two
  git commands is a parameter (\<open>None\<close> when they raise). Writing the report is taken to
  succeed. An uncaught exception ends the process with status 1.
\<close>

datatype fentry = File ustring | Unreadable

datatype message = Usage | Summary ustring nat nat

record outcome =
  exit_code :: nat
  printed :: "message list"
  written :: "(ustring \<times> html_block list) option"
  uncaught :: "py_error option"

definition read_input :: "(ustring \<Rightarrow> fentry option) \<Rightarrow> ustring \<Rightarrow> py_error + ustring" where
  "read_input fs path =
     (case fs path of
        None \<Rightarrow> Inr []
      | Some (File t) \<Rightarrow> Inr t
      | Some Unreadable \<Rightarrow> Inl (OSError path))"

definition abort :: "py_error \<Rightarrow> outcome" where
  "abort e = \<lparr>exit_code = 1, printed = [], written = None, uncaught = Some e\<rparr>"

definition main :: "ustring list \<Rightarrow> (ustring \<Rightarrow> fentry option) \<Rightarrow> (ustring \<times> ustring) option \<Rightarrow> outcome" where
  "main argv fs git =
     (if length argv < 3 then \<lparr>exit_code = 1, printed = [Usage], written = None, uncaught = None\<rparr>
      else
        (let output_file = (if length argv > 3 then argv ! 3 else u ''bench-report.html'') in
         case read_input fs (argv ! 1) of
           Inl e \<Rightarrow> abort e
         | Inr divan_text \<Rightarrow>
         (case parse_divan_output divan_text of
           Inl e \<Rightarrow> abort e
         | Inr divan_data \<Rightarrow>
         (case read_input fs (argv ! 2) of
           Inl e \<Rightarrow> abort e
         | Inr gungraun_text \<Rightarrow>
         (case parse_gungraun_output gungraun_text of
           Inl e \<Rightarrow> abort e
         | Inr gungraun_data \<Rightarrow>
         (case generate_sections_html divan_data gungraun_data of
           Inl e \<Rightarrow> abort e
         | Inr sections \<Rightarrow>
             \<lparr>exit_code = 0,
              printed = [Summary output_file
                           (length (filter (\<lambda>b. deserialize (snd b) \<noteq> []) divan_data))
                           (length (filter (\<lambda>b. serialize (snd b) \<noteq> []) divan_data))],
              written = Some (output_file,
                 [case git of None \<Rightarrow> ReportHead (u ''unknown'') (u ''unknown'')
                            | Some cb \<Rightarrow> ReportHead (fst cb) (snd cb)]
                 @ sections @ [InteractiveJs, Footer]),
              uncaught = None\<rparr>))))))"

subsection \<open>The vs-fastest column of scripts/parse-bench.py\<close>

text \<open>
  The table loop of \<^verbatim>\<open>generate_html_report\<close> in the older script, for the map of one
  benchmark: it is the place where a ratio to the fastest row is computed.
\<close>

record legacy_row =
  lr_class :: ustring
  lr_target :: ustring
  lr_time :: cell
  vs_fastest :: cell
  vs_serde :: cell
  speedup_class :: ustring




subsection \<open>Notions used in the statements\<close>


text \<open>The loop invariant of both parsers: the current section, once set, is a non-empty key of the results.\<close>

definition current_ok :: "(ustring \<times> 'v) list \<times> ustring option \<Rightarrow> bool" where
  "current_ok st = (case snd st of None \<Rightarrow> True | Some b \<Rightarrow> b \<noteq> [] \<and> map_of (fst st) b \<noteq> None)"

text \<open>A section line and a measurement line, as the harness prints them.\<close>

definition section_line :: "ustring \<Rightarrow> ustring" where
  "section_line b = [box_vr, box_h, 32] @ b @ [32]"

definition measurement_line :: "ustring \<Rightarrow> ustring \<Rightarrow> ustring \<Rightarrow> ustring" where
  "measurement_line name num unit = [box_v, 32, 32, box_vr, box_h, 32] @ name @ [32, 32] @ num @ [32] @ unit"

text \<open>Two runs that agree on the current section and on the entry of b stay so.\<close>

definition agree_on :: "ustring \<Rightarrow> divan_results \<times> ustring option \<Rightarrow> divan_results \<times> ustring option \<Rightarrow> bool" where
  "agree_on b s t \<longleftrightarrow> snd s = snd t \<and> map_of (fst s) b = map_of (fst t) b \<and> current_ok s \<and> current_ok t"


section \<open>Properties\<close>

subsection \<open>Evaluation rules\<close>

lemmas char_defs =
  u_def box_vr_def box_arc_def box_h_def box_v_def micro_def
  is_digit_def is_word_def is_space_def is_numch_def is_countch_def is_labelch_def

lemmas divan_defs =
  parse_divan_output_def divan_line_def module_match_def result_match_def unit_match_def
  py_float_def to_ns_def operation_of_def target_base_of_def replace_empty_def store_result_def
  digits_val_def

subsection \<open>A malformed number in a measurement line\<close>

text \<open>
  Claim C2. A line that has the measurement shape but whose number is not a decimal
  literal should be skipped while the rest of the document is parsed. The class
  \<^verbatim>\<open>[\d.]+\<close> accepts \<^verbatim>\<open>1.2.3\<close>, and the conversion \<^verbatim>\<open>float(...)\<close> of the statistical parser
  is not guarded: on the two-line document made of the section line of \<open>b\<close> and the
  measurement line \<^verbatim>\<open>x_deserialize 1.2.3 ns\<close> the parser ends with \<^verbatim>\<open>ValueError\<close> and returns
  no model at all.
\<close>

theorem parse_divan_output_malformed_number:
  "parse_divan_output
     ([box_vr, box_h, 32] @ u ''b'' @ [32, 10, box_v, 32, 32, box_vr, box_h, 32]
        @ u ''x_deserialize 1.2.3 ns'') = Inl ValueError"
  by (simp add: divan_defs char_defs)

subsection \<open>The loop of the statistical parser\<close>

lemma divan_lines_append:
  "divan_lines st (xs @ ys) = (case divan_lines st xs of Inl e \<Rightarrow> Inl e | Inr st' \<Rightarrow> divan_lines st' ys)"
  by (induction xs arbitrary: st) (auto split: sum.splits)

lemma module_match_nonempty: "module_match line = Some b \<Longrightarrow> b \<noteq> []"
  by (auto simp: module_match_def split: list.splits if_splits)

lemma divan_line_ok:
  "current_ok st \<Longrightarrow> divan_line st line = Inr st' \<Longrightarrow> current_ok st'"
  by (auto simp: divan_line_def current_ok_def update_conv' store_result_def dest: module_match_nonempty
      split: option.splits if_splits sum.splits prod.splits)

lemma divan_lines_ok:
  "current_ok st \<Longrightarrow> divan_lines st ls = Inr st' \<Longrightarrow> current_ok st'"
  by (induction ls arbitrary: st) (auto split: sum.splits dest: divan_line_ok)

lemma current_ok_init: "current_ok ([], None)"
  by (simp add: current_ok_def)



lemma divan_line_measurement:
  assumes "module_match line = None" "result_match line = Some (name, num, un)"
    and "py_float num = Inr v" "bench \<noteq> []" "map_of results bench = Some e"
  shows "divan_line (results, Some bench) line =
           Inr (AList.update bench
                  (if contains (u ''deserialize'') name
                   then e\<lparr>deserialize := AList.update (target_base_of name) (to_ns un v) (deserialize e)\<rparr>
                   else e\<lparr>serialize := AList.update (target_base_of name) (to_ns un v) (serialize e)\<rparr>)
                  results, Some bench)"
  using assms by (simp add: divan_line_def store_result_def operation_of_def u_def)

lemma to_ns_units:
  "to_ns (u ''ns'') v = v" "to_ns [micro, 115] v = v * 1000" "to_ns (u ''ms'') v = v * 1000000"
  by (simp_all add: to_ns_def u_def micro_def)


subsection \<open>Normalisation to nanoseconds\<close>



subsection \<open>Operation and target of a measurement\<close>

text \<open>
  Claim C6. A recognised measurement is stored in the deserialize map of the current
  benchmark if and only if its name contains \<^verbatim>\<open>deserialize\<close>, and in the serialize map
  otherwise; the other map is left as it was. The key under which it is stored is the
  name with the marker substrings stripped: every \<^verbatim>\<open>_deserialize\<close> is removed, then every
  \<^verbatim>\<open>_serialize\<close>.
\<close>

theorem operation_and_target_of_measurement:
  assumes "divan_lines ([], None) pre = Inr (results, Some bench)"
    and "module_match line = None"
    and "result_match line = Some (name, num, un)"
    and "py_float num = Inr v"
  shows "\<exists>results' e e'. divan_lines ([], None) (pre @ [line]) = Inr (results', Some bench)
           \<and> map_of results bench = Some e \<and> map_of results' bench = Some e'
           \<and> (if contains (u ''deserialize'') name
               then deserialize e' =
                      AList.update (replace_empty (u ''_serialize'') (replace_empty (u ''_deserialize'') name))
                        (to_ns un v) (deserialize e)
                    \<and> serialize e' = serialize e
               else serialize e' =
                      AList.update (replace_empty (u ''_serialize'') (replace_empty (u ''_deserialize'') name))
                        (to_ns un v) (serialize e)
                    \<and> deserialize e' = deserialize e)"
proof -
  have ok: "current_ok (results, Some bench)"
    using divan_lines_ok [OF current_ok_init assms(1)] .
  then obtain e where e: "bench \<noteq> []" "map_of results bench = Some e"
    by (auto simp: current_ok_def)
  note step = divan_line_measurement [OF assms(2,3,4) e]
  have run: "divan_lines ([], None) (pre @ [line]) =
      Inr (AList.update bench
                  (if contains (u ''deserialize'') name
                   then e\<lparr>deserialize := AList.update (target_base_of name) (to_ns un v) (deserialize e)\<rparr>
                   else e\<lparr>serialize := AList.update (target_base_of name) (to_ns un v) (serialize e)\<rparr>)
                  results, Some bench)"
    by (simp add: divan_lines_append assms(1) step)
  show ?thesis
    unfolding run using e(2)
    by (cases "contains (u ''deserialize'') name") (simp_all add: update_conv' target_base_of_def)
qed

theorem operation_and_target_of_measurement_witness:
  "\<exists>results' e'. divan_lines ([], None)
        ([section_line (u ''simple_struct'')]
           @ [measurement_line (u ''serde_json_deserialize'') (u ''2.500'') [micro, 115]])
        = Inr (results', Some (u ''simple_struct''))
      \<and> map_of results' (u ''simple_struct'') = Some e'
      \<and> deserialize e' = [(u ''serde_json'', 2500)] \<and> serialize e' = []"
proof -
  have h1: "divan_lines ([], None) [section_line (u ''simple_struct'')]
              = Inr ([(u ''simple_struct'', \<lparr>deserialize = [], serialize = []\<rparr>)], Some (u ''simple_struct''))"
    by (simp add: section_line_def divan_defs char_defs)
  have h2: "module_match (measurement_line (u ''serde_json_deserialize'') (u ''2.500'') [micro, 115]) = None"
    by (simp add: measurement_line_def divan_defs char_defs)
  have h3: "result_match (measurement_line (u ''serde_json_deserialize'') (u ''2.500'') [micro, 115])
              = Some (u ''serde_json_deserialize'', u ''2.500'', [micro, 115])"
    by (simp add: measurement_line_def divan_defs char_defs)
  have h4: "py_float (u ''2.500'') = Inr (5 / 2)"
    by (simp add: divan_defs char_defs)
  have op: "contains (u ''deserialize'') (u ''serde_json_deserialize'')"
    by (simp add: char_defs)
  have tg: "replace_empty (u ''_serialize'') (replace_empty (u ''_deserialize'') (u ''serde_json_deserialize'')) = u ''serde_json''"
    by (simp add: divan_defs char_defs)
  show ?thesis
    using operation_and_target_of_measurement [OF h1 h2 h3 h4] by (simp add: op tg to_ns_def)
qed

subsection \<open>Sections of the statistical input\<close>

lemma split_on_nonempty: "split_on sep s \<noteq> []"
  by (induction s) (auto split: list.splits)

lemma split_on_append:
  "split_on sep (a @ sep # b) = split_on sep a @ split_on sep b"
  by (induction a) (auto simp: split_on_nonempty split: list.splits)

lemma divan_line_section:
  "module_match line = Some b \<Longrightarrow>
     divan_line st line = Inr (AList.update b \<lparr>deserialize = [], serialize = []\<rparr> (fst st), Some b)"
  by (simp add: divan_line_def)

lemma divan_line_unrecognised:
  "module_match line = None \<Longrightarrow> result_match line = None \<Longrightarrow> divan_line st line = Inr st"
  by (simp add: divan_line_def split: option.splits)

lemma divan_lines_unrecognised:
  "\<forall>l\<in>set ls. module_match l = None \<and> result_match l = None \<Longrightarrow> divan_lines st ls = Inr st"
  by (induction ls) (simp_all add: divan_line_unrecognised)

lemma store_result_other:
  "store_result results bench operation target v = Inr r \<Longrightarrow> bench \<noteq> b \<Longrightarrow> map_of r b = map_of results b"
  by (auto simp: store_result_def update_conv' split: option.splits if_splits)

lemma divan_line_other:
  assumes "divan_line (r, c) line = Inr (r', c')"
    and "module_match line \<noteq> Some b"
    and "c \<noteq> Some b \<or> module_match line \<noteq> None"
  shows "map_of r' b = map_of r b \<and> c' \<noteq> Some b"
proof (cases "module_match line")
  case (Some n)
  with assms show ?thesis by (auto simp: divan_line_section update_conv')
next
  case None
  with assms show ?thesis
    by (auto simp: divan_line_def split: option.splits if_splits sum.splits dest: store_result_other)
qed

lemma divan_lines_other:
  "divan_lines (r, c) ls = Inr (r', c') \<Longrightarrow> c \<noteq> Some b \<Longrightarrow> \<forall>l\<in>set ls. module_match l \<noteq> Some b
     \<Longrightarrow> map_of r' b = map_of r b \<and> c' \<noteq> Some b"
proof (induction ls arbitrary: r c)
  case Nil
  then show ?case by simp
next
  case (Cons l ls)
  from Cons.prems(1) obtain r1 c1 where s1: "divan_line (r, c) l = Inr (r1, c1)"
    and s2: "divan_lines (r1, c1) ls = Inr (r', c')"
    by (auto split: sum.splits)
  from divan_line_other [OF s1] Cons.prems(2,3) have "map_of r1 b = map_of r b" "c1 \<noteq> Some b"
    by auto
  with Cons.IH [OF s2] Cons.prems(3) show ?case by simp
qed

lemma divan_line_keeps_keys:
  "divan_line st line = Inr st' \<Longrightarrow> map_of (fst st) k \<noteq> None \<Longrightarrow> map_of (fst st') k \<noteq> None"
  by (auto simp: divan_line_def update_conv' store_result_def
      split: option.splits if_splits sum.splits prod.splits)

lemma divan_lines_keeps_keys:
  "divan_lines st ls = Inr st' \<Longrightarrow> map_of (fst st) k \<noteq> None \<Longrightarrow> map_of (fst st') k \<noteq> None"
  by (induction ls arbitrary: st) (auto split: sum.splits dest: divan_line_keeps_keys)

lemma divan_line_agree:
  assumes "agree_on b s t" "divan_line s line = Inr s'"
  shows "\<exists>t'. divan_line t line = Inr t' \<and> agree_on b s' t'"
proof (cases "module_match line")
  case (Some n)
  with assms show ?thesis
    by (auto simp: divan_line_section agree_on_def update_conv' current_ok_def dest: module_match_nonempty)
next
  case None
  note nomod = this
  show ?thesis
  proof (cases "snd s")
    case None
    with assms nomod show ?thesis by (auto simp: divan_line_def agree_on_def)
  next
    case (Some bench)
    show ?thesis
    proof (cases "result_match line")
      case None
      with assms nomod show ?thesis by (auto simp: divan_line_unrecognised)
    next
      case (Some m)
      obtain name num un where m: "m = (name, num, un)" by (cases m) auto
      from assms(1) \<open>snd s = Some bench\<close> have st: "snd t = Some bench" "bench \<noteq> []"
        by (auto simp: agree_on_def current_ok_def)
      from assms(1) \<open>snd s = Some bench\<close> obtain es where es: "map_of (fst s) bench = Some es"
        by (auto simp: agree_on_def current_ok_def)
      from assms(1) st(1) obtain et where et: "map_of (fst t) bench = Some et"
        by (auto simp: agree_on_def current_ok_def)
      from assms(2) nomod Some m \<open>snd s = Some bench\<close> st obtain v where v: "py_float num = Inr v"
        by (auto simp: divan_line_def split: sum.splits)
      have ls: "divan_line (fst s, Some bench) line = Inr (AList.update bench
                  (if contains (u ''deserialize'') name
                   then es\<lparr>deserialize := AList.update (target_base_of name) (to_ns un v) (deserialize es)\<rparr>
                   else es\<lparr>serialize := AList.update (target_base_of name) (to_ns un v) (serialize es)\<rparr>)
                  (fst s), Some bench)"
        using divan_line_measurement [OF nomod _ v st(2) es] Some m by simp
      have lt: "divan_line (fst t, Some bench) line = Inr (AList.update bench
                  (if contains (u ''deserialize'') name
                   then et\<lparr>deserialize := AList.update (target_base_of name) (to_ns un v) (deserialize et)\<rparr>
                   else et\<lparr>serialize := AList.update (target_base_of name) (to_ns un v) (serialize et)\<rparr>)
                  (fst t), Some bench)"
        using divan_line_measurement [OF nomod _ v st(2) et] Some m by simp
      have s_eq: "s = (fst s, Some bench)" using \<open>snd s = Some bench\<close> by (cases s) simp
      have t_eq: "t = (fst t, Some bench)" using st(1) by (cases t) simp
      from assms(2) ls s_eq have s': "s' = (AList.update bench
                  (if contains (u ''deserialize'') name
                   then es\<lparr>deserialize := AList.update (target_base_of name) (to_ns un v) (deserialize es)\<rparr>
                   else es\<lparr>serialize := AList.update (target_base_of name) (to_ns un v) (serialize es)\<rparr>)
                  (fst s), Some bench)" by simp
      have "es = et" if "bench = b"
        using that assms(1) es et by (simp add: agree_on_def)
      then have "agree_on b s' (AList.update bench
                  (if contains (u ''deserialize'') name
                   then et\<lparr>deserialize := AList.update (target_base_of name) (to_ns un v) (deserialize et)\<rparr>
                   else et\<lparr>serialize := AList.update (target_base_of name) (to_ns un v) (serialize et)\<rparr>)
                  (fst t), Some bench)"
        using assms(1) st(2) unfolding s' by (auto simp: agree_on_def update_conv' current_ok_def)
      with lt t_eq show ?thesis by metis
    qed
  qed
qed

lemma divan_lines_agree:
  "agree_on b s t \<Longrightarrow> divan_lines s ls = Inr s' \<Longrightarrow> \<exists>t'. divan_lines t ls = Inr t' \<and> agree_on b s' t'"
proof (induction ls arbitrary: s t)
  case Nil
  then show ?case by simp
next
  case (Cons l ls)
  from Cons.prems(2) obtain s1 where s1: "divan_line s l = Inr s1" and s2: "divan_lines s1 ls = Inr s'"
    by (auto split: sum.splits)
  from divan_line_agree [OF Cons.prems(1) s1] obtain t1 where t1: "divan_line t l = Inr t1" "agree_on b s1 t1"
    by blast
  from Cons.IH [OF t1(2) s2] t1(1) show ?case by simp
qed

text \<open>
  Claim C9. When a section line naming \<open>b\<close> comes after other text \<open>pre\<close>, whatever was
  parsed from \<open>pre\<close> (an earlier section of the same name and its measurements included)
  has no part in the final entry of \<open>b\<close>: the entry is the one obtained by parsing the text
  from the later section line on.
\<close>

theorem later_section_discards_earlier:
  assumes "split_on 10 rest = sec # post"
    and "module_match sec = Some b"
    and "parse_divan_output (pre @ 10 # rest) = Inr r"
  shows "\<exists>r'. parse_divan_output rest = Inr r' \<and> map_of r' b = map_of r b"
proof -
  from assms(3) obtain c where full: "divan_lines ([], None) (split_on 10 pre @ sec # post) = Inr (r, c)"
    by (auto simp: parse_divan_output_def split_on_append assms(1) split: sum.splits)
  then obtain s0 where s0: "divan_lines ([], None) (split_on 10 pre) = Inr s0"
    and rest: "divan_lines s0 (sec # post) = Inr (r, c)"
    by (auto simp: divan_lines_append split: sum.splits)
  let ?e = "\<lparr>deserialize = [], serialize = []\<rparr>"
  from rest have post: "divan_lines (AList.update b ?e (fst s0), Some b) post = Inr (r, c)"
    by (simp add: divan_line_section [OF assms(2)])
  have "agree_on b (AList.update b ?e (fst s0), Some b) ([(b, ?e)], Some b)"
    using module_match_nonempty [OF assms(2)] by (simp add: agree_on_def update_conv' current_ok_def)
  from divan_lines_agree [OF this post] obtain t' where
    t': "divan_lines ([(b, ?e)], Some b) post = Inr t'" "agree_on b (r, c) t'" by blast
  have "parse_divan_output rest = Inr (fst t')"
    by (simp add: parse_divan_output_def assms(1) divan_line_section [OF assms(2)] t'(1))
  with t'(2) show ?thesis by (auto simp: agree_on_def)
qed

theorem later_section_discards_earlier_witness:
  "\<exists>r'. parse_divan_output
          (section_line (u ''b'') @ 10 # measurement_line (u ''y_serialize'') (u ''7'') (u ''ns'')) = Inr r'
      \<and> map_of r' (u ''b'') = Some \<lparr>deserialize = [], serialize = [(u ''y'', 7)]\<rparr>"
proof -
  have h1: "split_on 10 (section_line (u ''b'') @ 10 # measurement_line (u ''y_serialize'') (u ''7'') (u ''ns''))
              = section_line (u ''b'') # [measurement_line (u ''y_serialize'') (u ''7'') (u ''ns'')]"
    by (simp add: section_line_def measurement_line_def char_defs)
  have h2: "module_match (section_line (u ''b'')) = Some (u ''b'')"
    by (simp add: section_line_def divan_defs char_defs)
  have h3: "parse_divan_output
              ((section_line (u ''b'') @ 10 # measurement_line (u ''x_deserialize'') (u ''5'') (u ''ns''))
                 @ 10 # (section_line (u ''b'') @ 10 # measurement_line (u ''y_serialize'') (u ''7'') (u ''ns'')))
              = Inr [(u ''b'', \<lparr>deserialize = [], serialize = [(u ''y'', 7)]\<rparr>)]"
    by (simp add: section_line_def measurement_line_def divan_defs char_defs)
  show ?thesis
    using later_section_discards_earlier [OF h1 h2 h3] by simp
qed

subsection \<open>Rendering never raises\<close>

lemma vs_serde_of_total: "\<exists>x. vs_serde_of t s = Inr x"
  by (auto simp: vs_serde_of_def py_div_def split: option.splits)

lemma table_row_of_total: "\<exists>r. table_row_of b g s f tt = Inr r"
proof -
  obtain x where "vs_serde_of (snd tt) s = Inr x" using vs_serde_of_total by blast
  then show ?thesis by (simp add: table_row_of_def split: option.splits)
qed

lemma table_rows_total: "\<exists>rs. table_rows b g s f tts = Inr rs"
proof (induction tts)
  case Nil
  show ?case by simp
next
  case (Cons tt tts)
  obtain r where "table_row_of b g s f tt = Inr r" using table_row_of_total by blast
  with Cons show ?case by auto
qed

lemma generate_benchmark_section_total:
  "\<exists>bl. generate_benchmark_section n op d g i = Inr bl
        \<and> (\<forall>s. BenchmarkItem s \<in> set bl \<longrightarrow> sec_bench s = n \<and> d \<noteq> [])"
  using table_rows_total [of n g "map_of d (u ''serde_json'')" "Min (snd ` set d)" "sort_key snd d"]
  by (auto simp: generate_benchmark_section_def Let_def)

lemma bench_blocks_total:
  assumes "map_of d n = Some e"
  shows "\<exists>bl. bench_blocks d g n = Inr bl
        \<and> (\<forall>s. BenchmarkItem s \<in> set bl \<longrightarrow> sec_bench s = n \<and> (deserialize e \<noteq> [] \<or> serialize e \<noteq> []))"
proof -
  obtain de where de: "generate_benchmark_section n (u ''deserialize'') (deserialize e) g (n @ u ''_deser'') = Inr de"
    "\<forall>s. BenchmarkItem s \<in> set de \<longrightarrow> sec_bench s = n \<and> deserialize e \<noteq> []"
    using generate_benchmark_section_total by blast
  obtain se where se: "generate_benchmark_section n (u ''serialize'') (serialize e) g (n @ u ''_ser'') = Inr se"
    "\<forall>s. BenchmarkItem s \<in> set se \<longrightarrow> sec_bench s = n \<and> serialize e \<noteq> []"
    using generate_benchmark_section_total by blast
  show ?thesis using assms de se by (auto simp: bench_blocks_def)
qed

lemma benchmarks_blocks_total:
  "\<forall>n\<in>set names. map_of d n \<noteq> None \<Longrightarrow>
     \<exists>bl. benchmarks_blocks d g names = Inr bl
        \<and> (\<forall>s. BenchmarkItem s \<in> set bl \<longrightarrow>
              (\<exists>e. map_of d (sec_bench s) = Some e \<and> (deserialize e \<noteq> [] \<or> serialize e \<noteq> [])))"
proof (induction names)
  case Nil
  show ?case by simp
next
  case (Cons n names)
  from Cons.prems obtain e where e: "map_of d n = Some e" by auto
  from bench_blocks_total [OF e, of g] obtain bl where bl: "bench_blocks d g n = Inr bl"
    "\<forall>s. BenchmarkItem s \<in> set bl \<longrightarrow> sec_bench s = n \<and> (deserialize e \<noteq> [] \<or> serialize e \<noteq> [])"
    by blast
  from Cons obtain bls where bls: "benchmarks_blocks d g names = Inr bls"
    "\<forall>s. BenchmarkItem s \<in> set bls \<longrightarrow>
              (\<exists>e. map_of d (sec_bench s) = Some e \<and> (deserialize e \<noteq> [] \<or> serialize e \<noteq> []))"
    by auto
  show ?case using e bl bls by auto
qed

lemma categories_blocks_total:
  "\<forall>cb\<in>set cats. \<forall>n\<in>set (snd cb). map_of d n \<noteq> None \<Longrightarrow>
     \<exists>bl. categories_blocks d g cats = Inr bl
        \<and> (\<forall>s. BenchmarkItem s \<in> set bl \<longrightarrow>
              (\<exists>e. map_of d (sec_bench s) = Some e \<and> (deserialize e \<noteq> [] \<or> serialize e \<noteq> [])))"
proof (induction cats)
  case Nil
  show ?case by simp
next
  case (Cons cb cats)
  from Cons.prems have "\<forall>n\<in>set (snd cb). map_of d n \<noteq> None" by simp
  from benchmarks_blocks_total [OF this, of g] obtain bl where bl: "benchmarks_blocks d g (snd cb) = Inr bl"
    "\<forall>s. BenchmarkItem s \<in> set bl \<longrightarrow>
              (\<exists>e. map_of d (sec_bench s) = Some e \<and> (deserialize e \<noteq> [] \<or> serialize e \<noteq> []))"
    by blast
  from Cons obtain bls where bls: "categories_blocks d g cats = Inr bls"
    "\<forall>s. BenchmarkItem s \<in> set bls \<longrightarrow>
              (\<exists>e. map_of d (sec_bench s) = Some e \<and> (deserialize e \<noteq> [] \<or> serialize e \<noteq> []))"
    by auto
  show ?case using bl bls by auto
qed

lemma key_present: "n \<in> set (map fst d) \<Longrightarrow> map_of d n \<noteq> None"
  by (simp add: map_of_eq_None_iff)

lemma generate_sections_html_total:
  "\<exists>bl. generate_sections_html d g = Inr bl
        \<and> (\<forall>s. BenchmarkItem s \<in> set bl \<longrightarrow>
              (\<exists>e. map_of d (sec_bench s) = Some e \<and> (deserialize e \<noteq> [] \<or> serialize e \<noteq> [])))"
  unfolding generate_sections_html_def
  by (rule categories_blocks_total)
     (auto simp: micro_benches_def realistic_benches_def array_benches_def other_benches_def
           map_of_eq_None_iff)

subsection \<open>A section without measurements\<close>

text \<open>
  Claim C7. Every section line of the statistical input gives its benchmark an entry in
  the parsed model. When no line between the section line and the next section line is
  recognised (and the name does not come back later), the entry has two empty operation
  maps, and the section generator returns without error and without a table-and-chart
  item for that benchmark.
\<close>

theorem empty_section_retained_and_skipped:
  assumes "split_on 10 text = pre @ sec # body @ rest"
    and "module_match sec = Some b"
    and "parse_divan_output text = Inr r"
  shows "map_of r b \<noteq> None
      \<and> ((\<forall>l\<in>set body. module_match l = None \<and> result_match l = None)
           \<and> (\<forall>l\<in>set rest. module_match l \<noteq> Some b)
           \<and> (case rest of [] \<Rightarrow> True | l # _ \<Rightarrow> module_match l \<noteq> None)
         \<longrightarrow> map_of r b = Some \<lparr>deserialize = [], serialize = []\<rparr>
             \<and> (\<exists>blocks. generate_sections_html r g = Inr blocks
                   \<and> (\<forall>s. BenchmarkItem s \<in> set blocks \<longrightarrow> sec_bench s \<noteq> b)))"
proof -
  let ?e = "\<lparr>deserialize = [], serialize = []\<rparr>"
  from assms(3) obtain c where full: "divan_lines ([], None) (pre @ sec # body @ rest) = Inr (r, c)"
    by (auto simp: parse_divan_output_def assms(1) split: sum.splits)
  then obtain s0 where s0: "divan_lines ([], None) pre = Inr s0"
    and after: "divan_lines (AList.update b ?e (fst s0), Some b) (body @ rest) = Inr (r, c)"
    by (auto simp: divan_lines_append divan_line_section [OF assms(2)] split: sum.splits)
  have present: "map_of r b \<noteq> None"
    using divan_lines_keeps_keys [OF after, of b] by (simp add: update_conv')
  have empty: "map_of r b = Some ?e"
    if u: "\<forall>l\<in>set body. module_match l = None \<and> result_match l = None"
      and nb: "\<forall>l\<in>set rest. module_match l \<noteq> Some b"
      and hd: "case rest of [] \<Rightarrow> True | l # _ \<Rightarrow> module_match l \<noteq> None"
  proof -
    from after have r1: "divan_lines (AList.update b ?e (fst s0), Some b) rest = Inr (r, c)"
      by (simp add: divan_lines_append divan_lines_unrecognised [OF u])
    show ?thesis
    proof (cases rest)
      case Nil
      with r1 show ?thesis by (auto simp: update_conv')
    next
      case (Cons l ls)
      with hd obtain n where n: "module_match l = Some n" by auto
      with nb Cons have "n \<noteq> b" by auto
      from r1 Cons have r2: "divan_lines (AList.update n ?e (AList.update b ?e (fst s0)), Some n) ls = Inr (r, c)"
        by (simp add: divan_line_section [OF n])
      have "map_of r b = map_of (AList.update n ?e (AList.update b ?e (fst s0))) b"
        using divan_lines_other [OF r2, of b] nb Cons \<open>n \<noteq> b\<close> by simp
      then show ?thesis using \<open>n \<noteq> b\<close> by (simp add: update_conv')
    qed
  qed
  obtain blocks where blocks: "generate_sections_html r g = Inr blocks"
    "\<forall>s. BenchmarkItem s \<in> set blocks \<longrightarrow>
              (\<exists>e. map_of r (sec_bench s) = Some e \<and> (deserialize e \<noteq> [] \<or> serialize e \<noteq> []))"
    using generate_sections_html_total by blast
  have skipped: "\<forall>s. BenchmarkItem s \<in> set blocks \<longrightarrow> sec_bench s \<noteq> b" if "map_of r b = Some ?e"
    using blocks(2) that by auto
  show ?thesis using present empty skipped blocks(1) by blast
qed

lemmas render_defs =
  generate_sections_html_def micro_benches_def realistic_benches_def array_benches_def
  other_benches_def micro_names_def realistic_names_def array_names_def bench_blocks_def

theorem empty_section_retained_and_skipped_witness:
  "map_of [(u ''twitter'', \<lparr>deserialize = [], serialize = []\<rparr>)] (u ''twitter'')
       = Some \<lparr>deserialize = [], serialize = []\<rparr>
   \<and> (\<exists>blocks. generate_sections_html [(u ''twitter'', \<lparr>deserialize = [], serialize = []\<rparr>)] [] = Inr blocks
         \<and> (\<forall>s. BenchmarkItem s \<in> set blocks \<longrightarrow> sec_bench s \<noteq> u ''twitter''))"
proof -
  have h1: "split_on 10 (section_line (u ''twitter'') @ 10 # u ''   fastest | slowest'')
              = [] @ section_line (u ''twitter'') # [u ''   fastest | slowest''] @ []"
    by (simp add: section_line_def char_defs)
  have h2: "module_match (section_line (u ''twitter'')) = Some (u ''twitter'')"
    by (simp add: section_line_def divan_defs char_defs)
  have h3: "parse_divan_output (section_line (u ''twitter'') @ 10 # u ''   fastest | slowest'')
              = Inr [(u ''twitter'', \<lparr>deserialize = [], serialize = []\<rparr>)]"
    by (simp add: section_line_def divan_defs char_defs)
  have h4: "module_match (u ''   fastest | slowest'') = None \<and> result_match (u ''   fastest | slowest'') = None"
    by (simp add: divan_defs char_defs)
  show ?thesis
    using empty_section_retained_and_skipped [OF h1 h2 h3, of "[]"] h4 by simp
qed

lemma empty_section_rendering:
  "generate_sections_html [(u ''twitter'', \<lparr>deserialize = [], serialize = []\<rparr>)] []
     = Inr [SectionHeader ([127757] @ u '' Realistic Benchmarks (Real-World Data)'')]"
  by (simp add: render_defs char_defs)

subsection \<open>The rows of a group\<close>

lemma table_rows_mem:
  "table_rows b g s f tts = Inr rows \<Longrightarrow> row \<in> set rows
     \<Longrightarrow> \<exists>tt\<in>set tts. table_row_of b g s f tt = Inr (Some row)"
proof (induction tts arbitrary: rows)
  case Nil
  then show ?case by simp
next
  case (Cons tt tts)
  from Cons.prems(1) obtain r rs where r: "table_row_of b g s f tt = Inr r"
    and rs: "table_rows b g s f tts = Inr rs"
    and rows: "rows = (case r of None \<Rightarrow> rs | Some x \<Rightarrow> x # rs)"
    by (auto split: sum.splits)
  show ?case
  proof (cases "row \<in> set rs")
    case True
    from Cons.IH [OF rs True] show ?thesis by auto
  next
    case False
    with rows Cons.prems(2) have "r = Some row" by (cases r) auto
    with r show ?thesis by simp
  qed
qed

lemma section_rows:
  assumes "generate_benchmark_section n op d g i = Inr blocks"
    and "BenchmarkItem sec \<in> set blocks" and "row \<in> set (sec_rows sec)"
  shows "\<exists>tt\<in>set d. \<exists>f. table_row_of n g (map_of d (u ''serde_json'')) f tt = Inr (Some row)"
proof -
  from assms(1,2) have ne: "d \<noteq> []"
    by (auto simp: generate_benchmark_section_def split: if_splits)
  with assms(1,2) obtain rows where
    rows: "table_rows n g (map_of d (u ''serde_json'')) (Min (snd ` set d)) (sort_key snd d) = Inr rows"
    and sec: "sec_rows sec = rows"
    by (auto simp: generate_benchmark_section_def Let_def split: sum.splits)
  from assms(3) sec have "row \<in> set rows" by simp
  from table_rows_mem [OF rows this] obtain tt where
    tt: "tt \<in> set (sort_key snd d)"
      "table_row_of n g (map_of d (u ''serde_json'')) (Min (snd ` set d)) tt = Inr (Some row)"
    by blast
  from tt(1) have "tt \<in> set d" by simp
  with tt(2) show ?thesis by blast
qed

lemma vs_serde_str_row:
  assumes "table_row_of n g st f tt = Inr (Some row)"
  shows "(vs_serde_str row \<noteq> Lit (u ''-'') \<longrightarrow> (\<exists>s. st = Some s \<and> s > 0))
       \<and> (st = None \<or> st = Some 0 \<longrightarrow> vs_serde_str row = Lit (u ''-''))"
  using assms
  by (auto simp: table_row_of_def vs_serde_of_def py_div_def split: option.splits sum.splits if_splits)

text \<open>
  Claim C8. The table generator returns for every group, without a division error or any
  other exception. A row shows a ratio to the baseline only when \<^verbatim>\<open>serde_json\<close> is in the
  group with a duration above zero; when \<^verbatim>\<open>serde_json\<close> is missing or has the duration zero,
  every row of the group shows the dash.
\<close>

theorem vs_baseline_only_with_positive_baseline:
  "\<exists>blocks. generate_benchmark_section bench_name operation divan_data gungraun_data bench_id = Inr blocks
     \<and> (\<forall>sec row. BenchmarkItem sec \<in> set blocks \<and> row \<in> set (sec_rows sec) \<longrightarrow>
           (vs_serde_str row \<noteq> Lit (u ''-'') \<longrightarrow>
              (\<exists>s. map_of divan_data (u ''serde_json'') = Some s \<and> s > 0))
         \<and> (map_of divan_data (u ''serde_json'') = None \<or> map_of divan_data (u ''serde_json'') = Some 0
              \<longrightarrow> vs_serde_str row = Lit (u ''-'')))"
proof -
  obtain blocks where
    blocks: "generate_benchmark_section bench_name operation divan_data gungraun_data bench_id = Inr blocks"
    using generate_benchmark_section_total by blast
  have "(vs_serde_str row \<noteq> Lit (u ''-'') \<longrightarrow>
              (\<exists>s. map_of divan_data (u ''serde_json'') = Some s \<and> s > 0))
         \<and> (map_of divan_data (u ''serde_json'') = None \<or> map_of divan_data (u ''serde_json'') = Some 0
              \<longrightarrow> vs_serde_str row = Lit (u ''-''))"
    if "BenchmarkItem sec \<in> set blocks" "row \<in> set (sec_rows sec)" for sec row
  proof -
    from section_rows [OF blocks that] obtain tt f where
      "table_row_of bench_name gungraun_data (map_of divan_data (u ''serde_json'')) f tt = Inr (Some row)"
      by blast
    from vs_serde_str_row [OF this] show ?thesis .
  qed
  with blocks show ?thesis by blast
qed

lemma instructions_str_row:
  assumes "table_row_of n g st f tt = Inr (Some row)"
  shows "data_target row = fst tt"
    and "instructions_str row = instructions_text (lookup_instructions g n (fst tt))"
  using assms
  by (auto simp: table_row_of_def split: option.splits sum.splits)

lemma lookup_instructions_delete:
  "lookup_instructions (AList.delete (n @ u ''_'' @ t) g) n t' =
     (if t' = t then None else lookup_instructions g n t')"
  by (simp add: lookup_instructions_def delete_conv')

lemma table_row_of_delete:
  assumes "lookup_instructions g n t = Some 0"
  shows "table_row_of n (AList.delete (n @ u ''_'' @ t) g) st f tt = table_row_of n g st f tt"
proof -
  have "instructions_text (lookup_instructions (AList.delete (n @ u ''_'' @ t) g) n (fst tt))
          = instructions_text (lookup_instructions g n (fst tt))"
    using assms by (cases "fst tt = t") (simp_all add: lookup_instructions_delete instructions_text_def)
  then show ?thesis by (simp add: table_row_of_def split: option.splits sum.splits)
qed

lemma table_rows_delete:
  assumes "lookup_instructions g n t = Some 0"
  shows "table_rows n (AList.delete (n @ u ''_'' @ t) g) st f tts = table_rows n g st f tts"
  by (induction tts) (simp_all add: table_row_of_delete [OF assms] split: sum.splits)

text \<open>
  Claim C10. When the instruction data has an entry under the key of a row (benchmark,
  underscore, target) whose \<^verbatim>\<open>Instructions\<close> count is 0, the instructions field of the row is
  the dash, and the whole section is the one generated from the instruction data with that
  entry removed: a zero count cannot be told from a missing match.
\<close>

theorem zero_instructions_rendered_as_absent:
  assumes "generate_benchmark_section bench_name operation divan_data gungraun_data bench_id = Inr blocks"
    and "BenchmarkItem sec \<in> set blocks"
    and "row \<in> set (sec_rows sec)"
    and "map_of gungraun_data (bench_name @ u ''_'' @ data_target row) = Some metrics"
    and "map_of metrics (u ''Instructions'') = Some 0"
  shows "instructions_str row = u ''-''
       \<and> generate_benchmark_section bench_name operation divan_data
            (AList.delete (bench_name @ u ''_'' @ data_target row) gungraun_data) bench_id = Inr blocks"
proof -
  from section_rows [OF assms(1,2,3)] obtain tt f where
    tt: "table_row_of bench_name gungraun_data (map_of divan_data (u ''serde_json'')) f tt = Inr (Some row)"
    by blast
  have zero: "lookup_instructions gungraun_data bench_name (data_target row) = Some 0"
    using assms(4,5) by (simp add: lookup_instructions_def)
  have "instructions_str row = u ''-''"
    using instructions_str_row [OF tt] zero by (simp add: instructions_text_def)
  moreover have "generate_benchmark_section bench_name operation divan_data
            (AList.delete (bench_name @ u ''_'' @ data_target row) gungraun_data) bench_id
          = generate_benchmark_section bench_name operation divan_data gungraun_data bench_id"
    by (simp add: generate_benchmark_section_def table_rows_delete [OF zero] split: sum.splits)
  ultimately show ?thesis using assms(1) by simp
qed

lemmas table_defs =
  generate_benchmark_section_def table_row_of_def TARGETS_def vs_serde_of_def py_div_def
  row_class_of_def format_time_def instructions_text_def lookup_instructions_def charted_def

theorem vs_baseline_only_with_positive_baseline_witness:
  "\<exists>sec. generate_benchmark_section (u ''twitter'') (u ''deserialize'')
            [(u ''facet_json'', 100), (u ''serde_json'', 0)] [] (u ''twitter_deser'') = Inr [BenchmarkItem sec]
      \<and> map vs_serde_str (sec_rows sec) = [Lit (u ''-''), Lit (u ''-'')]"
  using vs_baseline_only_with_positive_baseline
          [of "u ''twitter''" "u ''deserialize''" "[(u ''facet_json'', 100), (u ''serde_json'', 0)]"
              "[]" "u ''twitter_deser''"]
  by (simp add: table_defs char_defs)

lemma vs_baseline_rendered:
  "\<exists>sec. generate_benchmark_section (u ''simple_struct'') (u ''deserialize'')
            [(u ''facet_format_jit'', 1046), (u ''serde_json'', 2500)] [] (u ''simple_struct_deser'')
          = Inr [BenchmarkItem sec]
      \<and> map data_target (sec_rows sec) = [u ''facet_format_jit'', u ''serde_json'']
      \<and> map vs_serde_str (sec_rows sec) = [Fixed 2 (1046 / 2500) (u ''x''), Fixed 2 1 (u ''x'')]
      \<and> map row_class (sec_rows sec) = [u ''fastest'', u ''baseline'']"
  by (simp add: table_defs char_defs)

theorem zero_instructions_rendered_as_absent_witness:
  "\<exists>blocks sec row.
      generate_benchmark_section (u ''simple_struct'') (u ''deserialize'') [(u ''facet_format_jit'', 1046)]
        [(u ''simple_struct_facet_format_jit'', [(u ''Instructions'', 0)])] (u ''simple_struct_deser'') = Inr blocks
    \<and> BenchmarkItem sec \<in> set blocks \<and> row \<in> set (sec_rows sec)
    \<and> data_target row = u ''facet_format_jit'' \<and> instructions_str row = u ''-''"
proof -
  obtain blocks where h1:
    "generate_benchmark_section (u ''simple_struct'') (u ''deserialize'') [(u ''facet_format_jit'', 1046)]
        [(u ''simple_struct_facet_format_jit'', [(u ''Instructions'', 0)])] (u ''simple_struct_deser'') = Inr blocks"
    using generate_benchmark_section_total by blast
  then have "\<exists>sec row. blocks = [BenchmarkItem sec] \<and> sec_rows sec = [row]
                \<and> data_target row = u ''facet_format_jit''"
    by (auto simp: table_defs char_defs)
  then obtain sec row where h2: "BenchmarkItem sec \<in> set blocks" and h3: "row \<in> set (sec_rows sec)"
    and tg: "data_target row = u ''facet_format_jit''"
    by auto
  have h4: "map_of [(u ''simple_struct_facet_format_jit'', [(u ''Instructions'', 0::int)])]
              (u ''simple_struct'' @ u ''_'' @ data_target row) = Some [(u ''Instructions'', 0)]"
    by (simp add: tg char_defs)
  have h5: "map_of [(u ''Instructions'', 0::int)] (u ''Instructions'') = Some 0"
    by simp
  from zero_instructions_rendered_as_absent [OF h1 h2 h3 h4 h5] h1 h2 h3 tg show ?thesis
    by blast
qed

subsection \<open>Metric lines of the instruction-count input\<close>

lemma gungraun_lines_append:
  "gungraun_lines st (xs @ ys) =
     (case gungraun_lines st xs of Inl e \<Rightarrow> Inl e | Inr st' \<Rightarrow> gungraun_lines st' ys)"
  by (induction xs arbitrary: st) (auto split: sum.splits)

lemma name_match_nonempty: "name_match line = Some b \<Longrightarrow> b \<noteq> []"
  by (auto simp: name_match_def Let_def split: if_splits)

lemma gungraun_line_ok:
  "current_ok st \<Longrightarrow> gungraun_line st line = Inr st' \<Longrightarrow> current_ok st'"
  by (auto simp: gungraun_line_def current_ok_def update_conv' store_metric_def dest: name_match_nonempty
      split: option.splits if_splits sum.splits prod.splits)

lemma gungraun_lines_ok:
  "current_ok st \<Longrightarrow> gungraun_lines st ls = Inr st' \<Longrightarrow> current_ok st'"
  by (induction ls arbitrary: st) (auto split: sum.splits dest: gungraun_line_ok)

lemma word_not_space: "is_word c \<Longrightarrow> \<not> is_space c"
  by (auto simp: is_word_def is_space_def is_digit_def micro_def)

lemma countch_not_space: "is_countch c \<Longrightarrow> \<not> is_space c"
  by (auto simp: is_countch_def is_space_def is_digit_def)

lemma colon_not_label: "\<not> is_labelch 58"
  by (simp add: is_labelch_def is_word_def is_space_def is_digit_def micro_def)

lemma bar_not_count: "\<not> is_countch 124"
  by (simp add: is_countch_def is_digit_def)

lemma space_is_label: "is_space c \<Longrightarrow> is_labelch c"
  by (simp add: is_labelch_def)

lemma takeWhile_run:
  "list_all P xs \<Longrightarrow> \<not> P y \<Longrightarrow> takeWhile P (xs @ y # ys) = xs"
  by (induction xs) auto

lemma dropWhile_run:
  "list_all P xs \<Longrightarrow> \<not> P y \<Longrightarrow> dropWhile P (xs @ y # ys) = y # ys"
  by (induction xs) auto

lemma metric_match_shape:
  assumes ws: "ws \<noteq> []" "list_all is_space ws"
    and label: "list_all is_labelch label" "label = l # ls" "is_word l"
    and ws2: "ws2 \<noteq> []" "list_all is_space ws2"
    and cur: "cur \<noteq> []" "list_all is_countch cur"
  shows "metric_match (ws @ label @ 58 # ws2 @ cur @ 124 # base) = Some (label, cur)"
proof -
  let ?line = "ws @ label @ 58 # ws2 @ cur @ 124 # base"
  have wl: "list_all is_labelch (ws @ label)"
    using ws(2) label(1) by (auto simp: list_all_iff space_is_label)
  have run: "takeWhile is_labelch ?line = ws @ label"
    using takeWhile_run [OF wl colon_not_label, of "ws2 @ cur @ 124 # base"] by simp
  have rest: "dropWhile is_labelch ?line = 58 # ws2 @ cur @ 124 # base"
    using dropWhile_run [OF wl colon_not_label, of "ws2 @ cur @ 124 # base"] by simp
  have lead: "takeWhile is_space (ws @ label) = ws"
    using takeWhile_run [OF ws(2) word_not_space [OF label(3)], of ls] label(2) by simp
  obtain c cs where c: "cur = c # cs" "is_countch c"
    using cur by (cases cur) auto
  have sp: "takeWhile is_space (ws2 @ cur @ 124 # base) = ws2"
    using takeWhile_run [OF ws2(2) countch_not_space [OF c(2)], of "cs @ 124 # base"] c(1) by simp
  have dsp: "dropWhile is_space (ws2 @ cur @ 124 # base) = cur @ 124 # base"
    using dropWhile_run [OF ws2(2) countch_not_space [OF c(2)], of "cs @ 124 # base"] c(1) by simp
  have cnt: "takeWhile is_countch (cur @ 124 # base) = cur"
    using takeWhile_run [OF cur(2) bar_not_count] by simp
  have len: "length ws < length (ws @ label)" "\<not> length (ws @ label) < 2"
    using ws(1) label(2) by (cases ws; simp)+
  show ?thesis
    unfolding metric_match_def Let_def run rest lead
    using ws(1) ws2(1) cur(1) len by (simp add: sp dsp cnt)
qed

lemma name_match_space: "is_space c \<Longrightarrow> name_match (c # s) = None"
  by (auto simp: name_match_def u_def is_space_def)

lemma count_digits:
  "list_all is_countch cur \<Longrightarrow> list_all is_digit (filter (\<lambda>c. c \<noteq> 44) cur)"
  by (induction cur) (auto simp: is_countch_def)

lemma current_part_digits: "list_all is_digit s \<Longrightarrow> current_part s = s"
  by (auto simp: current_part_def list_all_iff is_digit_def)

lemma py_int_count:
  assumes "list_all is_countch cur" "list_ex is_digit cur"
  shows "py_int (current_part (filter (\<lambda>c. c \<noteq> 44) cur)) = Inr (int (digits_val (filter (\<lambda>c. c \<noteq> 44) cur)))"
proof -
  from assms(2) obtain d where d: "d \<in> set cur" "is_digit d"
    by (auto simp: list_ex_iff)
  then have "d \<noteq> 44" by (auto simp: is_digit_def)
  with d(1) have "d \<in> set (filter (\<lambda>c. c \<noteq> 44) cur)" by simp
  then have "filter (\<lambda>c. c \<noteq> 44) cur \<noteq> []" by (metis empty_iff empty_set)
  then show ?thesis
    by (simp add: py_int_def current_part_digits [OF count_digits [OF assms(1)]] count_digits [OF assms(1)])
qed

text \<open>
  Claim C5. Let the instruction-count parser be inside a section. A line made of white
  space, a label that starts with a word character, a colon, white space, a count written
  with digits and commas (at least one digit), a bar and any baseline text stores, under
  the stripped label, the integer read from the digits of the count: the commas are
  dropped and nothing right of the bar is kept. The line \<^verbatim>\<open>Instructions: 6,549|0\<close> of the
  witness gives 6549.
\<close>

theorem metric_line_keeps_current_count:
  assumes "gungraun_lines ([], None) pre = Inr (results, Some bench)"
    and "ws \<noteq> []" "list_all is_space ws"
    and "list_all is_labelch label" "label = l # ls" "is_word l"
    and "ws2 \<noteq> []" "list_all is_space ws2"
    and "list_all is_countch cur" "list_ex is_digit cur"
  shows "\<exists>results' metrics.
           gungraun_lines ([], None) (pre @ [ws @ label @ 58 # ws2 @ cur @ 124 # base])
             = Inr (results', Some bench)
         \<and> map_of results' bench = Some metrics
         \<and> map_of metrics (strip label) = Some (int (digits_val (filter (\<lambda>c. c \<noteq> 44) cur)))"
proof -
  let ?line = "ws @ label @ 58 # ws2 @ cur @ 124 # base"
  have "current_ok (results, Some bench)"
    using gungraun_lines_ok [OF _ assms(1)] by (simp add: current_ok_def)
  then obtain m where m: "bench \<noteq> []" "map_of results bench = Some m"
    by (auto simp: current_ok_def)
  from assms(10) have cur: "cur \<noteq> []" by (auto simp: list_ex_iff)
  have mm: "metric_match ?line = Some (label, cur)"
    using metric_match_shape [OF assms(2,3,4,5,6,7,8) cur assms(9)] .
  obtain w ws' where w: "ws = w # ws'" "is_space w"
    using assms(2,3) by (cases ws) auto
  have nm: "name_match ?line = None"
    using name_match_space [OF w(2)] w(1) by simp
  have "gungraun_line (results, Some bench) ?line =
          Inr (AList.update bench
                 (AList.update (strip label) (int (digits_val (filter (\<lambda>c. c \<noteq> 44) cur))) m) results,
               Some bench)"
    by (simp add: gungraun_line_def nm mm m py_int_count [OF assms(9,10)] store_metric_def)
  then show ?thesis
    by (simp add: gungraun_lines_append assms(1) update_conv')
qed

lemmas gungraun_defs =
  parse_gungraun_output_def gungraun_line_def name_match_def metric_match_def store_metric_def
  current_part_def py_int_def strip_def digits_val_def

theorem metric_line_keeps_current_count_witness:
  "\<exists>results' metrics.
      gungraun_lines ([], None)
        ([u ''gungraun_jit::jit_benchmarks::simple_struct_facet_format_jit'']
           @ [u ''  Instructions: 6,549|0''])
        = Inr (results', Some (u ''simple_struct_facet_format_jit''))
    \<and> map_of results' (u ''simple_struct_facet_format_jit'') = Some metrics
    \<and> map_of metrics (u ''Instructions'') = Some 6549"
proof -
  have h1: "gungraun_lines ([], None) [u ''gungraun_jit::jit_benchmarks::simple_struct_facet_format_jit'']
              = Inr ([(u ''simple_struct_facet_format_jit'', [])], Some (u ''simple_struct_facet_format_jit''))"
    by (simp add: gungraun_defs char_defs)
  have h2: "u ''  '' \<noteq> []" "list_all is_space (u ''  '')"
    by (simp_all add: char_defs)
  have h3: "list_all is_labelch (u ''Instructions'')" "u ''Instructions'' = 73 # u ''nstructions''" "is_word 73"
    by (simp_all add: char_defs)
  have h4: "u '' '' \<noteq> []" "list_all is_space (u '' '')"
    by (simp_all add: char_defs)
  have h5: "list_all is_countch (u ''6,549'')" "list_ex is_digit (u ''6,549'')"
    by (simp_all add: char_defs)
  have line: "u ''  '' @ u ''Instructions'' @ 58 # u '' '' @ u ''6,549'' @ 124 # u ''0'' = u ''  Instructions: 6,549|0''"
    by (simp add: u_def)
  have lab: "strip (u ''Instructions'') = u ''Instructions''"
    by (simp add: strip_def char_defs)
  have val: "int (digits_val (filter (\<lambda>c. c \<noteq> 44) (u ''6,549''))) = 6549"
    by (simp add: digits_val_def u_def)
  show ?thesis
    using metric_line_keeps_current_count [OF h1 h2 h3 h4 h5, of "u ''0''"]
    unfolding line lab val .
qed

lemma parse_gungraun_output_example:
  "parse_gungraun_output
     (u ''gungraun_jit::jit_benchmarks::simple_struct_facet_format_jit'' @ 10 # u ''  Instructions: 6,549|0''
        @ 10 # u ''  Estimated Cycles:   7,001,234|N/A'' @ 10 # u ''  Ratio: ,|1'')
     = Inr [(u ''simple_struct_facet_format_jit'',
             [(u ''Instructions'', 6549), (u ''Estimated Cycles'', 7001234)])]"
  by (simp add: gungraun_defs char_defs)

subsection \<open>The ratio to the fastest row\<close>








subsection \<open>Missing input files\<close>








lemma usage_exit:
  "length argv < 3 \<Longrightarrow>
     main argv fs git = \<lparr>exit_code = 1, printed = [Usage], written = None, uncaught = None\<rparr>"
  by (simp add: main_def)

end
